theory Spec2Isabelle
  imports
    Main
    "HOL-Library.Word"
    "HOL-Library.Multiset"
    "HOL-Library.Char_ord"
    "HOL-Library.List_Lexorder"
begin

unbundle bit_operations_syntax

section \<open>listdir: a shallow embedding of \<^verbatim>\<open>src/main.c\<close>\<close>

text \<open>
  Conventions of the embedding.
  \<^item> A C string (the bytes of a \<^verbatim>\<open>char\<close> buffer before its terminating NUL) is a
    \<^typ>\<open>string\<close>. Writing NUL at index \<open>i\<close> of a buffer that holds a string longer
    than \<open>i\<close> cuts the string to its first \<open>i\<close> characters.
  \<^item> A pointer argument that the code tests against \<^verbatim>\<open>NULL\<close> is an \<open>option\<close>:
    \<open>None\<close> is the null pointer, \<open>Some v\<close> points to an object holding \<open>v\<close>.
    A pointer that is only written through (an output buffer, a struct to fill in)
    is a \<open>dest\<close>: either null or the address of some writable object.
  \<^item> A function that returns a status code and writes its result through a pointer
    returns a sum: \<open>Inl rc\<close> is the early return of the non-zero code \<open>rc\<close>, with
    nothing written; \<open>Inr v\<close> is the return of 0, the pointed-to object holding \<open>v\<close>
    afterwards. For such a function \<open>f\<close>, \<open>f_buf\<close> (or \<open>f_node\<close>) is what it writes
    when no pointer is null.
  \<^item> A function that prints returns the list of what it prints, in order, together
    with its result.
  \<^item> Array indices and element counts are \<^typ>\<open>nat\<close>: the \<^verbatim>\<open>int\<close> and \<^verbatim>\<open>size_t\<close>
    counters of the code do not overflow on arrays that fit in memory.
  \<^item> \<^verbatim>\<open>PATH_MAX\<close> comes from \<^verbatim>\<open>limits.h\<close>, which is not part of the repository: every
    function whose code uses it takes it as its first argument.
\<close>

datatype dest = NullDest | Dest

subsection \<open>C library string primitives\<close>

text \<open>
  \<^verbatim>\<open>strncpy(dst, src, n)\<close> copies at most \<open>n\<close> characters. When \<open>src\<close> has \<open>n\<close>
  characters or more the C buffer is left without terminator; the model keeps the
  \<open>n\<close> characters copied, and no theorem below is about such an input.
\<close>

definition strncpy :: "string \<Rightarrow> nat \<Rightarrow> string" where
  "strncpy src n = take n src"

text \<open>
  \<^verbatim>\<open>snprintf(dst, n, ...)\<close> writes at most \<open>n - 1\<close> characters of the formatted text
  and terminates it.
\<close>

definition snprintf :: "nat \<Rightarrow> string \<Rightarrow> string" where
  "snprintf n formatted = take (n - 1) formatted"

text \<open>
  \<^verbatim>\<open>strcmp\<close> compares byte by byte, the bytes read as \<^verbatim>\<open>unsigned char\<close>; a string
  that ends first is the smaller one. Only the sign of the result is specified.
\<close>

fun strcmp :: "string \<Rightarrow> string \<Rightarrow> int" where
  "strcmp [] [] = 0"
| "strcmp [] (y # ys) = - 1"
| "strcmp (x # xs) [] = 1"
| "strcmp (x # xs) (y # ys) =
     (if x = y then strcmp xs ys
      else if (of_char x :: nat) < of_char y then - 1 else 1)"

subsection \<open>Path text normalisation\<close>

text \<open>
  \<^verbatim>\<open>RemoveLeadingPeriodAndForwardSlashes\<close>: \<open>s\<close> is 2 when the buffer starts with
  \<^verbatim>\<open>./\<close> (the test of \<^verbatim>\<open>buf[1]\<close> is only made when \<^verbatim>\<open>buf[0]\<close> is a period), and then
  \<^verbatim>\<open>memmove\<close> shifts the rest of the string, terminator included, to the front.
\<close>

fun RemoveLeadingPeriodAndForwardSlashes_buf :: "string \<Rightarrow> string" where
  "RemoveLeadingPeriodAndForwardSlashes_buf (c0 # c1 # rest) =
     (if c0 = CHR ''.'' \<and> c1 = CHR ''/'' then rest else c0 # c1 # rest)"
| "RemoveLeadingPeriodAndForwardSlashes_buf buf = buf"

definition RemoveLeadingPeriodAndForwardSlashes :: "string option \<Rightarrow> int + string" where
  "RemoveLeadingPeriodAndForwardSlashes buf =
     (case buf of
        None \<Rightarrow> Inl 1
      | Some b \<Rightarrow> Inr (RemoveLeadingPeriodAndForwardSlashes_buf b))"

text \<open>
  \<^verbatim>\<open>RemoveTrailingForwardSlashes\<close>: the loop \<^verbatim>\<open>for (i = strlen(buf) - 1; i > 0; i--)\<close>.
  The first argument of the loop function is \<open>i\<close>; the body runs only while \<open>i > 0\<close>,
  so index 0 is never overwritten. On the empty string \<^verbatim>\<open>strlen(buf) - 1\<close> converts
  to the \<^verbatim>\<open>int\<close> \<open>-1\<close> and the body never runs; on \<^typ>\<open>nat\<close> the start index is then
  0, with the same effect.
\<close>

fun RemoveTrailingForwardSlashes_loop :: "nat \<Rightarrow> string \<Rightarrow> string" where
  "RemoveTrailingForwardSlashes_loop 0 buf = buf"
| "RemoveTrailingForwardSlashes_loop (Suc i) buf =
     (if buf ! Suc i = CHR ''/''
      then RemoveTrailingForwardSlashes_loop i (take (Suc i) buf)
      else buf)"

definition RemoveTrailingForwardSlashes_buf :: "string \<Rightarrow> string" where
  "RemoveTrailingForwardSlashes_buf buf =
     RemoveTrailingForwardSlashes_loop (length buf - 1) buf"

definition RemoveTrailingForwardSlashes :: "string option \<Rightarrow> int + string" where
  "RemoveTrailingForwardSlashes buf =
     (case buf of
        None \<Rightarrow> Inl 1
      | Some b \<Rightarrow> Inr (RemoveTrailingForwardSlashes_buf b))"


subsection \<open>\<^verbatim>\<open>PathQuery\<close>: a path segment with a link to its parent\<close>

text \<open>
  \<^verbatim>\<open>struct PathQuery\<close>: the segment \<^verbatim>\<open>p\<close>, the weak pointer \<^verbatim>\<open>parent\<close> (null for a
  path given by the user) and the level \<^verbatim>\<open>lvl\<close>, an \<^verbatim>\<open>unsigned char\<close>. A parent is
  never modified while a child points to it, so the pointer is modelled by the
  parent's value.
\<close>

datatype PathQuery =
  PathQuery (pq_p: string) (pq_parent: "PathQuery option") (pq_lvl: "8 word")

definition PathQueryCreate_node :: "nat \<Rightarrow> string \<Rightarrow> PathQuery" where
  "PathQueryCreate_node PATH_MAX path =
     PathQuery (RemoveTrailingForwardSlashes_buf (strncpy path PATH_MAX)) None 0"

definition PathQueryCreate :: "nat \<Rightarrow> dest \<Rightarrow> string option \<Rightarrow> int + PathQuery" where
  "PathQueryCreate PATH_MAX p path =
     (case (p, path) of
        (Dest, Some s) \<Rightarrow> Inr (PathQueryCreate_node PATH_MAX s)
      | _ \<Rightarrow> Inl 1)"

text \<open>
  \<^verbatim>\<open>c->lvl = p->lvl + 1\<close> is stored in an \<^verbatim>\<open>unsigned char\<close>: the addition is that of
  8-bit words.
\<close>

definition PathQueryCreateChild_node :: "nat \<Rightarrow> PathQuery \<Rightarrow> string \<Rightarrow> PathQuery" where
  "PathQueryCreateChild_node PATH_MAX p leaf =
     PathQuery
       (RemoveLeadingPeriodAndForwardSlashes_buf
          (RemoveTrailingForwardSlashes_buf (strncpy leaf PATH_MAX)))
       (Some p)
       (pq_lvl p + 1)"

definition PathQueryCreateChild ::
  "nat \<Rightarrow> PathQuery option \<Rightarrow> dest \<Rightarrow> string option \<Rightarrow> int + PathQuery" where
  "PathQueryCreateChild PATH_MAX p c leaf =
     (case (p, leaf, c) of
        (Some parent, Some l, Dest) \<Rightarrow> Inr (PathQueryCreateChild_node PATH_MAX parent l)
      | _ \<Rightarrow> Inl 1)"

text \<open>
  \<^verbatim>\<open>PathQueryGetPath\<close>: the \<^verbatim>\<open>do ... while ((q = q->parent) != NULL)\<close> loop prepends
  the segment of \<open>q\<close> and a \<^verbatim>\<open>/\<close> to \<^verbatim>\<open>path\<close>, through the temporary \<^verbatim>\<open>t\<close>.
\<close>

fun PathQueryGetPath_loop :: "nat \<Rightarrow> PathQuery \<Rightarrow> string \<Rightarrow> string" where
  "PathQueryGetPath_loop PATH_MAX (PathQuery qp qparent ql) path =
     (let t = snprintf PATH_MAX (qp @ ''/'' @ path);
          path' = strncpy t PATH_MAX
      in case qparent of
           None \<Rightarrow> path'
         | Some q \<Rightarrow> PathQueryGetPath_loop PATH_MAX q path')"

definition PathQueryGetPath_buf :: "nat \<Rightarrow> PathQuery \<Rightarrow> string" where
  "PathQueryGetPath_buf PATH_MAX p =
     strncpy (RemoveTrailingForwardSlashes_buf (PathQueryGetPath_loop PATH_MAX p [])) PATH_MAX"

definition PathQueryGetPath :: "nat \<Rightarrow> PathQuery option \<Rightarrow> dest \<Rightarrow> int + string" where
  "PathQueryGetPath PATH_MAX p buf =
     (case (p, buf) of
        (Some q, Dest) \<Rightarrow> Inr (PathQueryGetPath_buf PATH_MAX q)
      | _ \<Rightarrow> Inl 1)"

definition PathQueryGetLevel :: "PathQuery option \<Rightarrow> 8 word" where
  "PathQueryGetLevel p = (case p of None \<Rightarrow> 1 | Some q \<Rightarrow> pq_lvl q)"

subsection \<open>\<^verbatim>\<open>PathList\<close>: the paths given by the user\<close>

text \<open>
  \<^verbatim>\<open>PathList\<close> holds two heap arrays of strings and their element counts. An array
  is the list of the elements allocated for it (a null array has none). The code
  reads \<^verbatim>\<open>arrayfile[i]\<close> for \<open>i < sizefile\<close> without a check of its own: the counts
  must be those of the arrays, which is \<open>PathList_wf\<close>.
\<close>

record PathList =
  arrayfile :: "string list"
  sizefile :: nat
  arraydir :: "string list"
  sizedir :: nat

definition PathList_wf :: "PathList \<Rightarrow> bool" where
  "PathList_wf pl \<longleftrightarrow>
     sizefile pl = length (arrayfile pl) \<and> sizedir pl = length (arraydir pl)"

definition PathListGetSize :: "PathList option \<Rightarrow> nat" where
  "PathListGetSize pl = (case pl of None \<Rightarrow> 0 | Some l \<Rightarrow> sizefile l + sizedir l)"

text \<open>
  \<^verbatim>\<open>PathListGetPathAtIndex\<close> copies \<^verbatim>\<open>strlen + 1\<close> bytes: the whole string and its
  terminator.
\<close>

definition PathListGetPathAtIndex :: "PathList option \<Rightarrow> nat \<Rightarrow> dest \<Rightarrow> int + string" where
  "PathListGetPathAtIndex pl index buf =
     (case (pl, buf) of
        (Some l, Dest) \<Rightarrow>
          if index \<ge> PathListGetSize pl then Inl 1
          else if index < sizefile l
          then Inr (strncpy (arrayfile l ! index) (length (arrayfile l ! index) + 1))
          else Inr (strncpy (arraydir l ! (index - sizefile l))
                      (length (arraydir l ! (index - sizefile l)) + 1))
      | _ \<Rightarrow> Inl 1)"

subsection \<open>\<^verbatim>\<open>ArraySort\<close>: selection sort\<close>

text \<open>
  The inner loop \<^verbatim>\<open>for (j = i + 1; j < size; j++)\<close>, with the current \<open>j\<close> and
  \<open>min\<close> as arguments, returns the final \<open>min\<close>. (The variables \<^verbatim>\<open>size\<close> and \<^verbatim>\<open>min\<close>
  of the code are \<open>size'\<close> and \<open>min'\<close> here.)
\<close>

function ArraySort_min :: "string list \<Rightarrow> nat \<Rightarrow> nat \<Rightarrow> nat \<Rightarrow> nat" where
  "ArraySort_min array size' j min' =
     (if j < size'
      then ArraySort_min array size' (j + 1)
             (if strcmp (array ! j) (array ! min') < 0 then j else min')
      else min')"
  by pat_completeness auto
termination
  by (relation "measure (\<lambda>(array, size', j, min'). size' - j)") auto

text \<open>The outer loop \<^verbatim>\<open>for (i = 0; i < size; i++)\<close>, from the current \<open>i\<close> on.\<close>

function ArraySort_loop :: "string list \<Rightarrow> nat \<Rightarrow> nat \<Rightarrow> string list" where
  "ArraySort_loop array size' i =
     (if i < size'
      then let min' = ArraySort_min array size' (i + 1) i
           in ArraySort_loop
                (if min' \<noteq> i then array[min' := array ! i, i := array ! min'] else array)
                size' (i + 1)
      else array)"
  by pat_completeness auto
termination
  by (relation "measure (\<lambda>(array, size', i). size' - i)") auto

definition ArraySort :: "string list option \<Rightarrow> nat \<Rightarrow> int + string list" where
  "ArraySort array size' =
     (case array of
        None \<Rightarrow> Inl 1
      | Some a \<Rightarrow> Inr (ArraySort_loop a size' 0))"

subsection \<open>File metadata\<close>

text \<open>
  \<^verbatim>\<open>struct stat\<close>, with the fields the code reads. The file type and permission
  masks are those of \<^verbatim>\<open>sys/stat.h\<close> (octal 0170000 for \<^verbatim>\<open>S_IFMT\<close>, 0140000 socket,
  0120000 symbolic link, 0100000 regular, 060000 block device, 040000 directory,
  020000 character device, 010000 fifo; 0700, 070 and 07 for the permissions).
\<close>

record struct_stat =
  st_mode :: "32 word"
  st_size :: "64 word"
  st_mtime :: int
  st_atime :: int
  st_ctime :: int
  st_uid :: nat
  st_gid :: nat

definition S_IFMT :: "32 word" where "S_IFMT = 0xF000"
definition S_IFSOCK :: "32 word" where "S_IFSOCK = 0xC000"
definition S_IFLNK :: "32 word" where "S_IFLNK = 0xA000"
definition S_IFREG :: "32 word" where "S_IFREG = 0x8000"
definition S_IFBLK :: "32 word" where "S_IFBLK = 0x6000"
definition S_IFDIR :: "32 word" where "S_IFDIR = 0x4000"
definition S_IFCHR :: "32 word" where "S_IFCHR = 0x2000"
definition S_IFIFO :: "32 word" where "S_IFIFO = 0x1000"
definition S_IRWXU :: "32 word" where "S_IRWXU = 0x1C0"
definition S_IRWXG :: "32 word" where "S_IRWXG = 0x38"
definition S_IRWXO :: "32 word" where "S_IRWXO = 0x7"

definition S_ISLNK :: "32 word \<Rightarrow> bool" where
  "S_ISLNK m \<longleftrightarrow> m AND S_IFMT = S_IFLNK"

definition STAT_MOD_TYPE_BDEV :: char where "STAT_MOD_TYPE_BDEV = CHR ''b''"
definition STAT_MOD_TYPE_CDEV :: char where "STAT_MOD_TYPE_CDEV = CHR ''c''"
definition STAT_MOD_TYPE_DIR :: char where "STAT_MOD_TYPE_DIR = CHR ''d''"
definition STAT_MOD_TYPE_FIFO :: char where "STAT_MOD_TYPE_FIFO = CHR ''p''"
definition STAT_MOD_TYPE_SYMLINK :: char where "STAT_MOD_TYPE_SYMLINK = CHR ''l''"
definition STAT_MOD_TYPE_FILE :: char where "STAT_MOD_TYPE_FILE = CHR ''f''"
definition STAT_MOD_TYPE_SOCKET :: char where "STAT_MOD_TYPE_SOCKET = CHR ''s''"
definition STAT_MOD_TYPE_UNKNOWN :: char where "STAT_MOD_TYPE_UNKNOWN = CHR ''?''"

definition ANSI_COLOR_RED :: string where "ANSI_COLOR_RED = CHR 0x1B # ''[31m''"
definition ANSI_COLOR_GREEN :: string where "ANSI_COLOR_GREEN = CHR 0x1B # ''[32m''"
definition ANSI_COLOR_MAGENTA :: string where "ANSI_COLOR_MAGENTA = CHR 0x1B # ''[35m''"
definition ANSI_COLOR_CYAN :: string where "ANSI_COLOR_CYAN = CHR 0x1B # ''[36m''"

definition StatGetModeType :: "struct_stat \<Rightarrow> char" where
  "StatGetModeType st =
     (let t = st_mode st AND S_IFMT in
      if t = S_IFBLK then STAT_MOD_TYPE_BDEV
      else if t = S_IFCHR then STAT_MOD_TYPE_CDEV
      else if t = S_IFDIR then STAT_MOD_TYPE_DIR
      else if t = S_IFIFO then STAT_MOD_TYPE_FIFO
      else if t = S_IFLNK then STAT_MOD_TYPE_SYMLINK
      else if t = S_IFREG then STAT_MOD_TYPE_FILE
      else if t = S_IFSOCK then STAT_MOD_TYPE_SOCKET
      else STAT_MOD_TYPE_UNKNOWN)"

definition StatGetModeTypeColor :: "struct_stat \<Rightarrow> string" where
  "StatGetModeTypeColor st =
     (let t = st_mode st AND S_IFMT in
      if t = S_IFBLK then ANSI_COLOR_RED
      else if t = S_IFCHR then ANSI_COLOR_RED
      else if t = S_IFDIR then ANSI_COLOR_MAGENTA
      else if t = S_IFIFO then ANSI_COLOR_RED
      else if t = S_IFLNK then ANSI_COLOR_CYAN
      else if t = S_IFREG then ANSI_COLOR_GREEN
      else if t = S_IFSOCK then ANSI_COLOR_RED
      else ANSI_COLOR_GREEN)"

subsection \<open>The operating system and the library, as seen by the code\<close>

text \<open>
  The calls the code makes outside the repository. The file system does not change
  while the program runs, so each call is a function of its arguments.
  \<^item> \<open>BFFileSystemPathIsFile\<close> (bflibc): whether the path is a file.
  \<^item> \<open>lstat\<close>, \<open>stat\<close>: the metadata of the entry itself, and of what it resolves
    to through symbolic links; \<open>None\<close> when the call returns \<open>-1\<close>.
  \<^item> \<open>readlink\<close>: the text a symbolic link holds; \<open>None\<close> when the call returns \<open>-1\<close>.
  \<^item> \<open>scandir\<close>: the entries of a directory in \<^verbatim>\<open>alphasort\<close> order; \<open>None\<close> when
    the call returns \<open>-1\<close>.
  \<^item> \<open>BFByteGetString\<close> (bflibc): the code it returns for a byte count, and the
    printed form it leaves in its buffer.
  \<^item> \<open>basename\<close> (libgen): the last component of a path.
\<close>

record dirent =
  d_name :: string
  d_type :: "8 word"

definition DT_DIR :: "8 word" where "DT_DIR = 4"

record system =
  BFFileSystemPathIsFile :: "string \<Rightarrow> bool"
  lstat :: "string \<Rightarrow> struct_stat option"
  stat :: "string \<Rightarrow> struct_stat option"
  readlink :: "string \<Rightarrow> string option"
  scandir :: "string \<Rightarrow> dirent list option"
  BFByteGetString :: "64 word \<Rightarrow> int \<times> string"
  basename :: "string \<Rightarrow> string"

definition PathQueryIsFile :: "system \<Rightarrow> PathQuery option \<Rightarrow> bool" where
  "PathQueryIsFile sys p =
     (case p of None \<Rightarrow> False | Some q \<Rightarrow> BFFileSystemPathIsFile sys (pq_p q))"

subsection \<open>Rendering\<close>

text \<open>
  \<^verbatim>\<open>struct Arguments\<close>: the path list and the four one-bit flags.
\<close>

record Arguments =
  paths :: PathList
  showhelp :: bool
  showversion :: bool
  recursive :: bool
  briefDescription :: bool

text \<open>
  What the program writes to standard output, in order. An \<open>Error\<close> is one of the
  \<^verbatim>\<open>printf("error: ...")\<close> lines, named by the function that prints it (the path
  it mentions is kept where the code has it in a defined variable). \<open>Label\<close> is the
  \<^verbatim>\<open>"\n%s:\n"\<close> header of a directory. \<open>Brief\<close> and \<open>Detail\<close> are the texts printed by
  \<^verbatim>\<open>PathQueryPrintPathBrief\<close> and \<^verbatim>\<open>PathQueryPrintPathDetail\<close>, kept as the
  arguments these functions format.
\<close>

datatype error_line =
    ErrLstat string
  | ErrStat
  | ErrGetPath
  | ErrRemoveLeading string
  | ErrPrintablePath
  | ErrScanDir string
  | ErrCreateChild
  | ErrEntry
  | ErrArgsEmpty
  | ErrPathAtIndex
  | ErrCreate
  | ErrRoot int string

datatype printed =
    is_Error: Error error_line
  | is_Label: Label string
  | is_Brief: Brief string char "32 word" int string string string
  | is_Detail: Detail string char "32 word" int int int string string string nat nat

definition PathQueryPrintPathBrief ::
  "string \<Rightarrow> char \<Rightarrow> 32 word \<Rightarrow> int \<Rightarrow> string \<Rightarrow> string \<Rightarrow> string \<Rightarrow> printed list \<times> int" where
  "PathQueryPrintPathBrief path modetype m modtime sizebuf color linkdesc =
     ([Brief path modetype m modtime sizebuf color linkdesc], 0)"

definition PathQueryPrintPathDetail ::
  "string \<Rightarrow> char \<Rightarrow> 32 word \<Rightarrow> int \<Rightarrow> int \<Rightarrow> int \<Rightarrow> string \<Rightarrow> string \<Rightarrow> string \<Rightarrow> nat \<Rightarrow> nat
     \<Rightarrow> printed list \<times> int" where
  "PathQueryPrintPathDetail path modetype m modtime accesstime changetime sizebuf color
       linkdesc owner group' =
     ([Detail path modetype m modtime accesstime changetime sizebuf color linkdesc
         owner group'], 0)"

text \<open>
  \<^verbatim>\<open>GetPrintablePath\<close>: the last component for a node below a root, the whole path
  without a leading \<^verbatim>\<open>./\<close> for a root. (\<^verbatim>\<open>args\<close> is not used by the code.)
\<close>

definition GetPrintablePath_buf :: "system \<Rightarrow> nat \<Rightarrow> PathQuery \<Rightarrow> string" where
  "GetPrintablePath_buf sys PATH_MAX q =
     (if PathQueryGetLevel (Some q) > 0
      then strncpy (basename sys (PathQueryGetPath_buf PATH_MAX q)) PATH_MAX
      else strncpy (RemoveLeadingPeriodAndForwardSlashes_buf (PathQueryGetPath_buf PATH_MAX q))
             PATH_MAX)"

definition GetPrintablePath ::
  "system \<Rightarrow> nat \<Rightarrow> PathQuery option \<Rightarrow> dest \<Rightarrow> printed list \<times> (int + string)" where
  "GetPrintablePath sys PATH_MAX in' out =
     (case (in', out) of
        (Some q, Dest) \<Rightarrow>
          (case PathQueryGetPath PATH_MAX in' Dest of
             Inl rc \<Rightarrow> ([Error ErrGetPath], Inl 1)
           | Inr buf \<Rightarrow>
               if PathQueryGetLevel in' > 0
               then ([], Inr (strncpy (basename sys buf) PATH_MAX))
               else (case RemoveLeadingPeriodAndForwardSlashes (Some buf) of
                       Inl rc \<Rightarrow> ([Error (ErrRemoveLeading buf)], Inl 1)
                     | Inr buf' \<Rightarrow> ([], Inr (strncpy buf' PATH_MAX))))
      | _ \<Rightarrow> ([], Inl 1))"

text \<open>
  \<^verbatim>\<open>PathQueryPrintPath\<close>, lines 649 to 677: the metadata of the entry at \<open>p\<close> and the
  description of its link. \<^verbatim>\<open>lstat\<close> fills \<^verbatim>\<open>st\<close>; \<^verbatim>\<open>stat\<close> overwrites it only in the
  branch of an entry that is not a symbolic link; the other branch formats the text
  read by \<^verbatim>\<open>readlink\<close> (at most \<^verbatim>\<open>sizeof(buf)\<close> bytes of it) or \<^verbatim>\<open>?\<close>.
\<close>

definition PathQueryPrintPath_stat ::
  "system \<Rightarrow> nat \<Rightarrow> string \<Rightarrow> printed list \<times> (int + struct_stat \<times> string)" where
  "PathQueryPrintPath_stat sys PATH_MAX p =
     (case lstat sys p of
        None \<Rightarrow> ([Error (ErrLstat p)], Inl 1)
      | Some st \<Rightarrow>
          if \<not> S_ISLNK (st_mode st)
          then (case stat sys p of
                  None \<Rightarrow> ([Error ErrStat], Inl 1)
                | Some st' \<Rightarrow> ([], Inr (st', [])))
          else ([], Inr (st, snprintf PATH_MAX
                  ('' -> '' @ (case readlink sys p of
                                 None \<Rightarrow> ''?''
                               | Some buf \<Rightarrow> take PATH_MAX buf)))))"

text \<open>
  \<^verbatim>\<open>PathQueryPrintPath\<close>. With a null argument the code returns \<^verbatim>\<open>false\<close>, which is 0.
\<close>

definition PathQueryPrintPath ::
  "system \<Rightarrow> nat \<Rightarrow> PathQuery option \<Rightarrow> Arguments option \<Rightarrow> printed list \<times> int" where
  "PathQueryPrintPath sys PATH_MAX path args =
     (case (args, path) of
        (Some a, Some q) \<Rightarrow>
          (let p = PathQueryGetPath_buf PATH_MAX q in
           case PathQueryPrintPath_stat sys PATH_MAX p of
             (out1, Inl rc) \<Rightarrow> (out1, rc)
           | (out1, Inr (st, linkdesc)) \<Rightarrow>
               (case BFByteGetString sys (st_size st) of
                  (error, sizebuf) \<Rightarrow>
                    if error \<noteq> 0 then (out1, error)
                    else
                    (let m = st_mode st AND (S_IRWXU OR S_IRWXG OR S_IRWXO);
                         modetype = StatGetModeType st;
                         color = StatGetModeTypeColor st
                     in case GetPrintablePath sys PATH_MAX path Dest of
                          (out2, Inl rc) \<Rightarrow> (out1 @ out2 @ [Error ErrPrintablePath], 1)
                        | (out2, Inr item) \<Rightarrow>
                            (let shouldPrintInDetail =
                                   (PathListGetSize (Some (paths a)) = 1 \<and>
                                    PathQueryGetLevel path = 0);
                                 (out3, rc) =
                                   (if shouldPrintInDetail
                                    then PathQueryPrintPathDetail item modetype m
                                           (st_mtime st) (st_atime st) (st_ctime st)
                                           sizebuf color linkdesc (st_uid st) (st_gid st)
                                    else PathQueryPrintPathBrief item modetype m
                                           (st_mtime st) sizebuf color linkdesc)
                             in (out1 @ out2 @ out3, rc)))))
      | _ \<Rightarrow> ([], 0))"

text \<open>
  \<^verbatim>\<open>PathQueryPrintDir\<close>: the body of the loop over the entries, then the function.
  The inner buffer \<^verbatim>\<open>p\<close> of the loop is only printed in error lines. Nothing is
  printed for a directory entry when \<^verbatim>\<open>recursive\<close> is set.
\<close>

definition PathQueryPrintDir_entry ::
  "system \<Rightarrow> nat \<Rightarrow> PathQuery \<Rightarrow> Arguments \<Rightarrow> dirent \<Rightarrow> printed list" where
  "PathQueryPrintDir_entry sys PATH_MAX dir args e =
     (if strcmp (d_name e) ''.'' \<noteq> 0 \<and> strcmp (d_name e) ''..'' \<noteq> 0
      then (case PathQueryCreateChild PATH_MAX (Some dir) Dest (Some (d_name e)) of
              Inl rc \<Rightarrow> [Error ErrCreateChild]
            | Inr path \<Rightarrow>
                if recursive args \<and> d_type e = DT_DIR then []
                else (let (out, rc) = PathQueryPrintPath sys PATH_MAX (Some path) (Some args)
                      in out @ (if rc \<noteq> 0 then [Error ErrEntry] else [])))
      else [])"

definition PathQueryPrintDir ::
  "system \<Rightarrow> nat \<Rightarrow> PathQuery option \<Rightarrow> Arguments option \<Rightarrow> printed list \<times> int" where
  "PathQueryPrintDir sys PATH_MAX dir args =
     (case (dir, args) of
        (Some d, Some a) \<Rightarrow>
          (let p = PathQueryGetPath_buf PATH_MAX d in
           case scandir sys p of
             None \<Rightarrow> ([Error (ErrScanDir p)], 1)
           | Some namelist \<Rightarrow>
               (let shouldLabel = PathListGetSize (Some (paths a)) > 1
                in ((if shouldLabel then [Label p] else [])
                      @ concat (map (PathQueryPrintDir_entry sys PATH_MAX d a) namelist), 0)))
      | _ \<Rightarrow> ([], 1))"

text \<open>
  \<^verbatim>\<open>GetInfo\<close>: the body of the loop for the root path at index \<open>i\<close>, then the function.
  (\<^verbatim>\<open>currpath\<close> has \<^verbatim>\<open>PATH_MAX\<close> bytes and receives the whole path: a path of
  \<^verbatim>\<open>PATH_MAX\<close> characters or more overruns it in C, and is read back whole here.)
\<close>

definition GetInfo_path :: "system \<Rightarrow> nat \<Rightarrow> Arguments \<Rightarrow> nat \<Rightarrow> printed list" where
  "GetInfo_path sys PATH_MAX args i =
     (case PathListGetPathAtIndex (Some (paths args)) i Dest of
        Inl rc \<Rightarrow> [Error ErrPathAtIndex]
      | Inr currpath \<Rightarrow>
          (case PathQueryCreate PATH_MAX Dest (Some currpath) of
             Inl rc \<Rightarrow> [Error ErrCreate]
           | Inr path \<Rightarrow>
               (let (out, err) =
                      (if PathQueryIsFile sys (Some path)
                       then PathQueryPrintPath sys PATH_MAX (Some path) (Some args)
                       else PathQueryPrintDir sys PATH_MAX (Some path) (Some args))
                in out @ (if err \<noteq> 0 then [Error (ErrRoot err currpath)] else []))))"

definition GetInfo :: "system \<Rightarrow> nat \<Rightarrow> Arguments option \<Rightarrow> printed list \<times> int" where
  "GetInfo sys PATH_MAX args =
     (case args of
        None \<Rightarrow> ([Error ErrArgsEmpty], 1)
      | Some a \<Rightarrow>
          (concat (map (GetInfo_path sys PATH_MAX a) [0..<PathListGetSize (Some (paths a))]),
           0))"

subsection \<open>Notions of the specification\<close>

text \<open>
  The text with every trailing \<^verbatim>\<open>/\<close> removed, as the specification words it; the
  code is compared with it below.
\<close>

definition all_trailing_slashes_removed :: "string \<Rightarrow> string" where
  "all_trailing_slashes_removed s = rev (dropWhile (\<lambda>c. c = CHR ''/'') (rev s))"



text \<open>Adjacent elements in ascending order under \<open>strcmp\<close>.\<close>

fun ascending :: "string list \<Rightarrow> bool" where
  "ascending [] = True"
| "ascending [x] = True"
| "ascending (x # y # ys) = (strcmp x y \<le> 0 \<and> ascending (y # ys))"

subsection \<open>A small file system, for concrete evaluation\<close>

text \<open>
  A directory holding the symbolic link \<^verbatim>\<open>l\<close> to the regular file \<^verbatim>\<open>t\<close>, the
  symbolic link \<^verbatim>\<open>u\<close> whose text cannot be read and whose target cannot be reached,
  and the directory \<^verbatim>\<open>d\<close> with one regular file \<^verbatim>\<open>d/t\<close>. A link has mode 0120777 and
  4 bytes, a file mode 0100644 and 100 bytes.
\<close>

definition example_link :: struct_stat where
  "example_link =
     \<lparr>st_mode = 0xA1FF, st_size = 4, st_mtime = 1, st_atime = 2, st_ctime = 3,
      st_uid = 1000, st_gid = 1000\<rparr>"

definition example_file :: struct_stat where
  "example_file =
     \<lparr>st_mode = 0x81A4, st_size = 100, st_mtime = 10, st_atime = 20, st_ctime = 30,
      st_uid = 0, st_gid = 0\<rparr>"

definition example_system :: system where
  "example_system =
     \<lparr>BFFileSystemPathIsFile = (\<lambda>path. path = ''l'' \<or> path = ''t'' \<or> path = ''u''),
      lstat = (\<lambda>path. if path = ''l'' \<or> path = ''u'' then Some example_link
                       else if path = ''t'' \<or> path = ''d/t'' then Some example_file
                       else None),
      stat = (\<lambda>path. if path = ''l'' \<or> path = ''t'' \<or> path = ''d/t''
                      then Some example_file else None),
      readlink = (\<lambda>path. if path = ''l'' then Some ''t'' else None),
      scandir = (\<lambda>path. if path = ''d''
                         then Some [\<lparr>d_name = ''.'', d_type = 4\<rparr>,
                                    \<lparr>d_name = ''..'', d_type = 4\<rparr>,
                                    \<lparr>d_name = ''t'', d_type = 8\<rparr>]
                         else None),
      BFByteGetString = (\<lambda>n. (0, if n = 4 then ''4 B'' else ''100 B'')),
      basename = (\<lambda>path. rev (takeWhile (\<lambda>c. c \<noteq> CHR ''/'') (rev path)))\<rparr>"

text \<open>The arguments of a query for the given files and directories.\<close>

definition example_arguments :: "string list \<Rightarrow> string list \<Rightarrow> Arguments" where
  "example_arguments files dirs =
     \<lparr>paths = \<lparr>arrayfile = files, sizefile = length files,
               arraydir = dirs, sizedir = length dirs\<rparr>,
      showhelp = False, showversion = False, recursive = False,
      briefDescription = False\<rparr>"

section \<open>Path text normalisation\<close>

lemma RTFS_snoc_slash:
  assumes "s \<noteq> []"
  shows "RemoveTrailingForwardSlashes_buf (s @ ''/'') = RemoveTrailingForwardSlashes_buf s"
proof -
  from assms obtain k where "length s = Suc k" by (cases s) auto
  then show ?thesis
    by (simp add: RemoveTrailingForwardSlashes_buf_def nth_append)
qed

lemma RTFS_snoc_other:
  assumes "c \<noteq> CHR ''/''"
  shows "RemoveTrailingForwardSlashes_buf (s @ [c]) = s @ [c]"
proof (cases s)
  case Nil
  then show ?thesis by (simp add: RemoveTrailingForwardSlashes_buf_def)
next
  case (Cons a list)
  with assms show ?thesis
    by (simp add: RemoveTrailingForwardSlashes_buf_def nth_append)
qed

lemma RTFS_single: "RemoveTrailingForwardSlashes_buf [c] = [c]"
  by (simp add: RemoveTrailingForwardSlashes_buf_def)

lemma RTFS_Nil: "RemoveTrailingForwardSlashes_buf [] = []"
  by (simp add: RemoveTrailingForwardSlashes_buf_def)

lemma removed_snoc_slash:
  "all_trailing_slashes_removed (s @ ''/'') = all_trailing_slashes_removed s"
  by (simp add: all_trailing_slashes_removed_def)

lemma removed_snoc_other:
  "c \<noteq> CHR ''/'' \<Longrightarrow> all_trailing_slashes_removed (s @ [c]) = s @ [c]"
  by (simp add: all_trailing_slashes_removed_def)

lemma RTFS_some_other:
  assumes "\<exists>c\<in>set s. c \<noteq> CHR ''/''"
  shows "RemoveTrailingForwardSlashes_buf s = all_trailing_slashes_removed s"
  using assms
proof (induction s rule: rev_induct)
  case Nil
  then show ?case by simp
next
  case (snoc x xs)
  show ?case
  proof (cases "x = CHR ''/''")
    case True
    with snoc.prems have ex: "\<exists>c\<in>set xs. c \<noteq> CHR ''/''" by auto
    then have "xs \<noteq> []" by auto
    with True snoc.IH [OF ex] show ?thesis
      using RTFS_snoc_slash [of xs] removed_snoc_slash [of xs] by simp
  next
    case False
    then show ?thesis by (simp add: RTFS_snoc_other removed_snoc_other)
  qed
qed

lemma RTFS_root_slashes:
  "RemoveTrailingForwardSlashes_buf (CHR ''/'' # replicate n (CHR ''/'')) = ''/''"
proof (induction n)
  case 0
  then show ?case by (simp add: RTFS_single)
next
  case (Suc n)
  have eq: "CHR ''/'' # replicate (Suc n) (CHR ''/'')
              = (CHR ''/'' # replicate n (CHR ''/'')) @ ''/''"
    by (simp add: replicate_append_same)
  have step: "RemoveTrailingForwardSlashes_buf ((CHR ''/'' # replicate n (CHR ''/'')) @ ''/'')
                = RemoveTrailingForwardSlashes_buf (CHR ''/'' # replicate n (CHR ''/''))"
    by (rule RTFS_snoc_slash) simp
  show ?case by (simp only: eq step Suc.IH)
qed

lemma only_slashes:
  assumes "\<forall>c\<in>set s. c = CHR ''/''"
  shows "RemoveTrailingForwardSlashes_buf s = take 1 s"
proof (cases s)
  case Nil
  then show ?thesis by (simp add: RTFS_Nil)
next
  case (Cons a list)
  with assms have "s = CHR ''/'' # replicate (length list) (CHR ''/'')"
    by (auto simp: replicate_length_same)
  then show ?thesis using RTFS_root_slashes [of "length list"] by simp
qed

lemma removed_no_trailing:
  assumes "\<exists>c\<in>set s. c \<noteq> CHR ''/''"
  shows "all_trailing_slashes_removed s \<noteq> [] \<and> last (all_trailing_slashes_removed s) \<noteq> CHR ''/''"
proof -
  let ?d = "dropWhile (\<lambda>c. c = CHR ''/'') (rev s)"
  from assms have ne: "?d \<noteq> []" by (auto simp: dropWhile_eq_Nil_conv)
  then have "\<not> (hd ?d = CHR ''/'')" using hd_dropWhile [of "\<lambda>c. c = CHR ''/''" "rev s"] by blast
  with ne show ?thesis by (simp add: all_trailing_slashes_removed_def last_rev)
qed

text \<open>
  C6: for every text that ends in one or more \<^verbatim>\<open>/\<close> and is not the root \<^verbatim>\<open>/\<close> with
  slashes appended, stripping removes all the trailing slashes: the result is the
  text without them and does not end in a slash. The text \<^verbatim>\<open>/\<close> followed by any
  number of slashes is stripped to \<^verbatim>\<open>/\<close>. More generally, any text that holds a
  character other than \<^verbatim>\<open>/\<close> loses exactly its trailing slashes, and a text made
  only of slashes is cut to its first character.
\<close>

theorem RemoveTrailingForwardSlashes_strips:
  "RemoveTrailingForwardSlashes (Some s) =
     Inr (if \<forall>c\<in>set s. c = CHR ''/'' then take 1 s else all_trailing_slashes_removed s) \<and>
   RemoveTrailingForwardSlashes (Some (''/'' @ replicate n (CHR ''/''))) = Inr ''/'' \<and>
   (s \<noteq> [] \<and> last s = CHR ''/'' \<and> s \<noteq> ''/'' @ replicate (length s - 1) (CHR ''/'') \<longrightarrow>
      RemoveTrailingForwardSlashes (Some s) = Inr (all_trailing_slashes_removed s) \<and>
      all_trailing_slashes_removed s \<noteq> [] \<and>
      last (all_trailing_slashes_removed s) \<noteq> CHR ''/'')"
proof -
  have a: "RemoveTrailingForwardSlashes (Some s) =
     Inr (if \<forall>c\<in>set s. c = CHR ''/'' then take 1 s else all_trailing_slashes_removed s)"
    by (auto simp: RemoveTrailingForwardSlashes_def only_slashes RTFS_some_other)
  have b: "RemoveTrailingForwardSlashes (Some (''/'' @ replicate n (CHR ''/''))) = Inr ''/''"
    using RTFS_root_slashes [of n] by (simp add: RemoveTrailingForwardSlashes_def)
  have c: "RemoveTrailingForwardSlashes (Some s) = Inr (all_trailing_slashes_removed s) \<and>
      all_trailing_slashes_removed s \<noteq> [] \<and>
      last (all_trailing_slashes_removed s) \<noteq> CHR ''/''"
    if "s \<noteq> []" and "s \<noteq> ''/'' @ replicate (length s - 1) (CHR ''/'')"
  proof -
    have ex: "\<exists>c\<in>set s. c \<noteq> CHR ''/''"
    proof (rule ccontr)
      assume "\<not> (\<exists>c\<in>set s. c \<noteq> CHR ''/'')"
      then have "s = replicate (length s) (CHR ''/'')"
        by (auto simp: replicate_length_same)
      with that(1) have "s = ''/'' @ replicate (length s - 1) (CHR ''/'')"
        by (cases s) auto
      with that(2) show False by simp
    qed
    with a removed_no_trailing [OF ex] show ?thesis by auto
  qed
  from a b c show ?thesis by blast
qed

theorem RemoveTrailingForwardSlashes_strips_witness:
  "\<not> (\<forall>c\<in>set ''/hello/world/''. c = CHR ''/'') \<and>
   last ''/hello/world/'' = CHR ''/'' \<and>
   ''/hello/world/'' \<noteq> ''/'' @ replicate (length ''/hello/world/'' - 1) (CHR ''/'') \<and>
   RemoveTrailingForwardSlashes (Some ''/hello/world/'') = Inr ''/hello/world'' \<and>
   all_trailing_slashes_removed ''/hello/world/'' = ''/hello/world'' \<and>
   set ''///'' = {CHR ''/''} \<and>
   RemoveTrailingForwardSlashes (Some ''///'') = Inr ''/''"
  using RemoveTrailingForwardSlashes_strips [of "''/hello/world/''" 0]
    RemoveTrailingForwardSlashes_strips [of "''///''" 0]
  by (simp add: all_trailing_slashes_removed_def)




section \<open>Sorting\<close>

text \<open>
  \<open>strcmp\<close> is the lexicographic order on strings over the order of characters by
  their byte value.
\<close>

lemma strcmp_less: "strcmp a b < 0 \<longleftrightarrow> a < b"
  by (induction a b rule: strcmp.induct) (auto simp: less_char_def)

lemma strcmp_le: "strcmp a b \<le> 0 \<longleftrightarrow> a \<le> b"
  by (induction a b rule: strcmp.induct) (auto simp: less_char_def)

lemma ascending_sorted: "ascending xs \<longleftrightarrow> sorted xs"
proof (induction xs rule: ascending.induct)
  case (3 x y ys)
  have "sorted (x # y # ys) \<longleftrightarrow> x \<le> y \<and> sorted (y # ys)" by (rule sorted2)
  with 3 show ?case by (simp only: ascending.simps strcmp_le)
qed simp_all

declare ArraySort_min.simps [simp del] ArraySort_loop.simps [simp del]

lemma ArraySort_min_lower: "lo \<le> m \<Longrightarrow> lo \<le> j \<Longrightarrow> lo \<le> ArraySort_min a n j m"
proof (induction a n j m rule: ArraySort_min.induct)
  case (1 array size' j min')
  then show ?case by (simp add: ArraySort_min.simps [of array size' j min'])
qed

lemma ArraySort_min_upper: "m < n \<Longrightarrow> ArraySort_min a n j m < n"
proof (induction a n j m rule: ArraySort_min.induct)
  case (1 array size' j min')
  then show ?case by (simp add: ArraySort_min.simps [of array size' j min'])
qed

lemma ArraySort_min_least:
  "lo \<le> m \<Longrightarrow> m < j \<Longrightarrow> \<forall>k. lo \<le> k \<and> k < j \<longrightarrow> a ! m \<le> a ! k \<Longrightarrow>
   lo \<le> k \<Longrightarrow> k < n \<Longrightarrow> a ! (ArraySort_min a n j m) \<le> a ! k"
proof (induction a n j m arbitrary: k rule: ArraySort_min.induct)
  case (1 array size' j min')
  show ?case
  proof (cases "j < size'")
    case False
    with "1.prems" show ?thesis by (simp add: ArraySort_min.simps [of array size' j min'])
  next
    case True
    let ?m = "if strcmp (array ! j) (array ! min') < 0 then j else min'"
    have a: "lo \<le> ?m" using "1.prems" by simp
    have b: "?m < j + 1" using "1.prems" by simp
    have c: "\<forall>k. lo \<le> k \<and> k < j + 1 \<longrightarrow> array ! ?m \<le> array ! k"
    proof (intro allI impI)
      fix k assume k: "lo \<le> k \<and> k < j + 1"
      show "array ! ?m \<le> array ! k"
      proof (cases "k = j")
        case True
        then show ?thesis by (auto simp: strcmp_less)
      next
        case False
        with k have "k < j" by simp
        with k "1.prems"(3) have "array ! min' \<le> array ! k" by simp
        then show ?thesis by (auto simp: strcmp_less)
      qed
    qed
    have "array ! (ArraySort_min array size' (j + 1) ?m) \<le> array ! k"
      using "1.IH" [OF True a b c "1.prems"(4) "1.prems"(5)] .
    with True show ?thesis by (simp add: ArraySort_min.simps [of array size' j min'])
  qed
qed

lemma ArraySort_min_sorted:
  "sorted a \<Longrightarrow> n \<le> length a \<Longrightarrow> m < j \<Longrightarrow> ArraySort_min a n j m = m"
proof (induction a n j m rule: ArraySort_min.induct)
  case (1 array size' j min')
  show ?case
  proof (cases "j < size'")
    case False
    then show ?thesis by (simp add: ArraySort_min.simps [of array size' j min'])
  next
    case True
    have "array ! min' \<le> array ! j"
      using "1.prems" True by (simp add: sorted_iff_nth_mono)
    then have no: "\<not> strcmp (array ! j) (array ! min') < 0" by (simp add: strcmp_less)
    have "ArraySort_min array size' (j + 1) min' = min'"
      using "1.IH" [OF True] no "1.prems" by simp
    with True no show ?thesis by (simp add: ArraySort_min.simps [of array size' j min'])
  qed
qed

lemma ArraySort_loop_length: "length (ArraySort_loop a n i) = length a"
proof (induction a n i rule: ArraySort_loop.induct)
  case (1 array size' i)
  then show ?case by (simp add: ArraySort_loop.simps [of array size' i] Let_def)
qed

lemma ArraySort_loop_mset: "n \<le> length a \<Longrightarrow> mset (ArraySort_loop a n i) = mset a"
proof (induction a n i rule: ArraySort_loop.induct)
  case (1 array size' i)
  show ?case
  proof (cases "i < size'")
    case False
    then show ?thesis by (simp add: ArraySort_loop.simps [of array size' i])
  next
    case True
    define m where "m = ArraySort_min array size' (i + 1) i"
    have m': "ArraySort_min array size' (Suc i) i = m" by (simp add: m_def)
    have "m < size'" unfolding m_def using True by (rule ArraySort_min_upper)
    then have m: "m < length array" using "1.prems" by simp
    have i: "i < length array" using True "1.prems" by simp
    let ?a = "if m \<noteq> i then array[m := array ! i, i := array ! m] else array"
    have "mset ?a = mset array" using mset_swap [OF i m] by simp
    moreover have "mset (ArraySort_loop ?a size' (i + 1)) = mset ?a"
      using "1.IH" [OF True m_def] "1.prems" by simp
    ultimately show ?thesis using True
      by (simp add: ArraySort_loop.simps [of array size' i] m' Let_def)
  qed
qed

lemma ArraySort_loop_sorted:
  "n = length a \<Longrightarrow> \<forall>x y. x < i \<and> x < y \<and> y < n \<longrightarrow> a ! x \<le> a ! y \<Longrightarrow>
   sorted (ArraySort_loop a n i)"
proof (induction a n i rule: ArraySort_loop.induct)
  case (1 array size' i)
  show ?case
  proof (cases "i < size'")
    case False
    with "1.prems" have "\<forall>x y. x < y \<and> y < length array \<longrightarrow> array ! x \<le> array ! y" by auto
    then have "sorted array" by (simp add: sorted_iff_nth_mono_less)
    with False show ?thesis by (simp add: ArraySort_loop.simps [of array size' i])
  next
    case True
    define m where "m = ArraySort_min array size' (i + 1) i"
    have m': "ArraySort_min array size' (Suc i) i = m" by (simp add: m_def)
    have mu: "m < size'" unfolding m_def using True by (rule ArraySort_min_upper)
    have ml: "i \<le> m" unfolding m_def by (rule ArraySort_min_lower) simp_all
    have start: "\<forall>k. i \<le> k \<and> k < i + 1 \<longrightarrow> array ! i \<le> array ! k"
    proof (intro allI impI)
      fix k assume "i \<le> k \<and> k < i + 1"
      then have "k = i" by arith
      then show "array ! i \<le> array ! k" by simp
    qed
    have least: "\<And>k. i \<le> k \<Longrightarrow> k < size' \<Longrightarrow> array ! m \<le> array ! k"
      unfolding m_def using start by (rule ArraySort_min_least [where lo = i, rotated 2]) simp_all
    let ?a = "if m \<noteq> i then array[m := array ! i, i := array ! m] else array"
    have len: "size' = length ?a" using "1.prems" by simp
    have inv: "\<forall>x y. x < i + 1 \<and> x < y \<and> y < size' \<longrightarrow> ?a ! x \<le> ?a ! y"
    proof (intro allI impI)
      fix x y assume xy: "x < i + 1 \<and> x < y \<and> y < size'"
      show "?a ! x \<le> ?a ! y"
      proof (cases "x < i")
        case True
        have ax: "?a ! x = array ! x" using True ml "1.prems"(1) xy by (simp add: nth_list_update)
        have "\<exists>k. ?a ! y = array ! k \<and> x < k \<and> k < size'"
        proof (cases "m = i")
          case True
          then show ?thesis using xy by auto
        next
          case neq: False
          show ?thesis
          proof (cases "y = i")
            case True
            then have "?a ! y = array ! m \<and> x < m \<and> m < size'"
              using neq xy ml mu "1.prems"(1) by (simp add: nth_list_update)
            then show ?thesis by blast
          next
            case yi: False
            show ?thesis
            proof (cases "y = m")
              case True
              then have "?a ! y = array ! i \<and> x < i \<and> i < size'"
                using neq yi xy \<open>x < i\<close> \<open>i < size'\<close> mu "1.prems"(1)
                by (simp add: nth_list_update)
              then show ?thesis by blast
            next
              case False
              then have "?a ! y = array ! y \<and> x < y \<and> y < size'"
                using neq yi xy by (simp add: nth_list_update)
              then show ?thesis by blast
            qed
          qed
        qed
        then obtain k where k: "?a ! y = array ! k" "x < k" "k < size'" by blast
        with "1.prems"(2) True have "array ! x \<le> array ! k" by simp
        with ax k show ?thesis by simp
      next
        case False
        with xy have x: "x = i" by simp
        have ax: "?a ! x = array ! m" using x ml mu "1.prems"(1) by (simp add: nth_list_update)
        have "\<exists>k. ?a ! y = array ! k \<and> i \<le> k \<and> k < size'"
        proof (cases "y = m")
          case True
          then have "?a ! y = array ! i \<and> i \<le> i \<and> i < size'"
            using xy x mu "1.prems"(1) \<open>i < size'\<close> by (simp add: nth_list_update)
          then show ?thesis by blast
        next
          case False
          then have "?a ! y = array ! y \<and> i \<le> y \<and> y < size'"
            using xy x by (simp add: nth_list_update)
          then show ?thesis by blast
        qed
        then obtain k where k: "?a ! y = array ! k" "i \<le> k" "k < size'" by blast
        with least have "array ! m \<le> array ! k" by simp
        with ax k show ?thesis by simp
      qed
    qed
    have "sorted (ArraySort_loop ?a size' (i + 1))"
      using "1.IH" [OF True m_def len inv] .
    with True show ?thesis
      by (simp add: ArraySort_loop.simps [of array size' i] m' Let_def)
  qed
qed

lemma ArraySort_loop_fixed:
  "sorted a \<Longrightarrow> n \<le> length a \<Longrightarrow> ArraySort_loop a n i = a"
proof (induction a n i rule: ArraySort_loop.induct)
  case (1 array size' i)
  show ?case
  proof (cases "i < size'")
    case False
    then show ?thesis by (simp add: ArraySort_loop.simps [of array size' i])
  next
    case True
    have m: "ArraySort_min array size' (i + 1) i = i"
      using ArraySort_min_sorted [OF "1.prems"] by simp
    have "ArraySort_loop array size' (i + 1) = array"
      using "1.IH" [OF True refl] m "1.prems" by simp
    with True m show ?thesis by (simp add: ArraySort_loop.simps [of array size' i] Let_def)
  qed
qed

text \<open>
  C8: sorting a sequence of strings leaves every adjacent pair \<open>a\<close>, \<open>b\<close> with
  \<open>strcmp a b \<le> 0\<close>, and sorting is idempotent: sorting the result again, or any
  sequence already in ascending order, changes nothing. This holds for every
  sequence, with distinct elements or not.
\<close>

theorem ArraySort_ascending_idempotent:
  "(\<exists>ys. ArraySort (Some xs) (length xs) = Inr ys \<and> ascending ys \<and>
         ArraySort (Some ys) (length ys) = Inr ys) \<and>
   (ascending xs \<longrightarrow> ArraySort (Some xs) (length xs) = Inr xs)"
proof -
  let ?ys = "ArraySort_loop xs (length xs) 0"
  have s: "sorted ?ys" by (rule ArraySort_loop_sorted) simp_all
  then have "ArraySort_loop ?ys (length ?ys) 0 = ?ys" by (rule ArraySort_loop_fixed) simp
  with s have "\<exists>ys. ArraySort (Some xs) (length xs) = Inr ys \<and> ascending ys \<and>
        ArraySort (Some ys) (length ys) = Inr ys"
    by (simp add: ArraySort_def ascending_sorted)
  moreover have "ascending xs \<longrightarrow> ArraySort (Some xs) (length xs) = Inr xs"
    by (simp add: ArraySort_def ascending_sorted ArraySort_loop_fixed)
  ultimately show ?thesis by blast
qed

theorem ArraySort_ascending_idempotent_witness:
  "ascending [''a'', ''b'', ''c''] \<and>
   ArraySort (Some [''a'', ''b'', ''c'']) (length [''a'', ''b'', ''c''])
     = Inr [''a'', ''b'', ''c'']"
  using ArraySort_ascending_idempotent [of "[''a'', ''b'', ''c'']"]
  by simp

text \<open>
  C9: the sort only exchanges elements: the multiset of the strings in the array
  after sorting is the one before.
\<close>

theorem ArraySort_permutation:
  "\<exists>ys. ArraySort (Some xs) (length xs) = Inr ys \<and> mset ys = mset xs"
  by (simp add: ArraySort_def ArraySort_loop_mset)

section \<open>Path nodes\<close>







lemma root_child_level:
  "pq_lvl (PathQueryCreate_node PATH_MAX path) = 0"
  "pq_lvl (PathQueryCreateChild_node PATH_MAX (PathQueryCreate_node PATH_MAX path) leaf) = 1"
  by (simp_all add: PathQueryCreate_node_def PathQueryCreateChild_node_def)










text \<open>
  C10: the level of the null node is 1, which is also the level of the child of a
  root: the value returned for a null pointer is that of a node one level below a
  path given by the user.
\<close>

theorem PathQueryGetLevel_null:
  "PathQueryGetLevel None = 1 \<and>
   (\<exists>root child.
      PathQueryCreate PATH_MAX Dest (Some path) = Inr root \<and>
      PathQueryGetLevel (Some root) = 0 \<and>
      PathQueryCreateChild PATH_MAX (Some root) Dest (Some leaf) = Inr child \<and>
      PathQueryGetLevel (Some child) = PathQueryGetLevel None)"
  by (simp add: PathQueryGetLevel_def PathQueryCreate_def PathQueryCreateChild_def
      root_child_level)

section \<open>The path list\<close>

text \<open>
  C4: in a path list whose counts are those of its arrays, the size is the number
  of files plus the number of directories; an index below the number of files
  selects that element of the files, an index from there up to the size selects the
  element of the directories at the index minus the number of files, and the index
  equal to the size is refused with the code 1.
\<close>

theorem PathList_size_and_index:
  assumes "PathList_wf pl"
  shows "PathListGetSize (Some pl) = length (arrayfile pl) + length (arraydir pl) \<and>
    (\<forall>i < length (arrayfile pl).
       PathListGetPathAtIndex (Some pl) i Dest = Inr (arrayfile pl ! i)) \<and>
    (\<forall>i. length (arrayfile pl) \<le> i \<and> i < PathListGetSize (Some pl) \<longrightarrow>
       PathListGetPathAtIndex (Some pl) i Dest
         = Inr (arraydir pl ! (i - length (arrayfile pl)))) \<and>
    PathListGetPathAtIndex (Some pl) (PathListGetSize (Some pl)) Dest = Inl 1"
  using assms
  by (auto simp: PathList_wf_def PathListGetSize_def PathListGetPathAtIndex_def strncpy_def)

theorem PathList_size_and_index_witness:
  "PathList_wf \<lparr>arrayfile = [''a'', ''b''], sizefile = 2, arraydir = [''d''], sizedir = 1\<rparr> \<and>
   PathListGetSize
     (Some \<lparr>arrayfile = [''a'', ''b''], sizefile = 2, arraydir = [''d''], sizedir = 1\<rparr>) = 3 \<and>
   PathListGetPathAtIndex
     (Some \<lparr>arrayfile = [''a'', ''b''], sizefile = 2, arraydir = [''d''], sizedir = 1\<rparr>) 1 Dest
     = Inr ''b'' \<and>
   PathListGetPathAtIndex
     (Some \<lparr>arrayfile = [''a'', ''b''], sizefile = 2, arraydir = [''d''], sizedir = 1\<rparr>) 2 Dest
     = Inr ''d'' \<and>
   PathListGetPathAtIndex
     (Some \<lparr>arrayfile = [''a'', ''b''], sizefile = 2, arraydir = [''d''], sizedir = 1\<rparr>) 3 Dest
     = Inl 1"
proof -
  have wf: "PathList_wf
      \<lparr>arrayfile = [''a'', ''b''], sizefile = 2, arraydir = [''d''], sizedir = 1\<rparr>"
    by (simp add: PathList_wf_def)
  from PathList_size_and_index [OF wf] wf show ?thesis
    by (simp add: PathListGetSize_def)
qed

section \<open>Rendering\<close>

lemmas mode_defs = S_IFMT_def S_IFSOCK_def S_IFLNK_def S_IFREG_def S_IFBLK_def S_IFDIR_def
  S_IFCHR_def S_IFIFO_def

lemma symlink_type:
  "S_ISLNK (st_mode st) \<Longrightarrow> StatGetModeType st = STAT_MOD_TYPE_SYMLINK"
  by (simp add: S_ISLNK_def StatGetModeType_def mode_defs)

lemma symlink_color:
  "S_ISLNK (st_mode st) \<Longrightarrow> StatGetModeTypeColor st = ANSI_COLOR_CYAN"
  by (simp add: S_ISLNK_def StatGetModeTypeColor_def mode_defs)

lemma stat_symlink:
  "lstat sys p = Some st \<Longrightarrow> S_ISLNK (st_mode st) \<Longrightarrow>
   PathQueryPrintPath_stat sys PATH_MAX p =
     ([], Inr (st, snprintf PATH_MAX
        ('' -> '' @ (case readlink sys p of None \<Rightarrow> ''?'' | Some buf \<Rightarrow> take PATH_MAX buf))))"
  by (simp add: PathQueryPrintPath_stat_def)

lemma stat_events:
  "ev \<in> set (fst (PathQueryPrintPath_stat sys PATH_MAX p)) \<Longrightarrow> is_Error ev"
  by (auto simp: PathQueryPrintPath_stat_def split: option.splits if_splits)

lemma stat_result:
  "snd (PathQueryPrintPath_stat sys PATH_MAX p) = Inl rc \<Longrightarrow> rc = 1"
  by (auto simp: PathQueryPrintPath_stat_def split: option.splits if_splits)

lemma GetPrintablePath_Some:
  "GetPrintablePath sys PATH_MAX (Some q) Dest = ([], Inr (GetPrintablePath_buf sys PATH_MAX q))"
  by (simp add: GetPrintablePath_def PathQueryGetPath_def PathQueryGetLevel_def
      RemoveLeadingPeriodAndForwardSlashes_def GetPrintablePath_buf_def)

lemma PrintPath_symlink:
  assumes "lstat sys (PathQueryGetPath_buf PATH_MAX q) = Some st"
    and "S_ISLNK (st_mode st)"
    and "BFByteGetString sys (st_size st) = (0, sizebuf)"
  shows "PathQueryPrintPath sys PATH_MAX (Some q) (Some a) =
    ([if PathListGetSize (Some (paths a)) = 1 \<and> PathQueryGetLevel (Some q) = 0
      then Detail (GetPrintablePath_buf sys PATH_MAX q) STAT_MOD_TYPE_SYMLINK
             (st_mode st AND (S_IRWXU OR S_IRWXG OR S_IRWXO))
             (st_mtime st) (st_atime st) (st_ctime st) sizebuf ANSI_COLOR_CYAN
             (snprintf PATH_MAX ('' -> '' @
                (case readlink sys (PathQueryGetPath_buf PATH_MAX q) of
                   None \<Rightarrow> ''?'' | Some buf \<Rightarrow> take PATH_MAX buf)))
             (st_uid st) (st_gid st)
      else Brief (GetPrintablePath_buf sys PATH_MAX q) STAT_MOD_TYPE_SYMLINK
             (st_mode st AND (S_IRWXU OR S_IRWXG OR S_IRWXO))
             (st_mtime st) sizebuf ANSI_COLOR_CYAN
             (snprintf PATH_MAX ('' -> '' @
                (case readlink sys (PathQueryGetPath_buf PATH_MAX q) of
                   None \<Rightarrow> ''?'' | Some buf \<Rightarrow> take PATH_MAX buf)))], 0)"
  using assms
  by (simp add: PathQueryPrintPath_def stat_symlink GetPrintablePath_Some symlink_type
      symlink_color PathQueryPrintPathDetail_def PathQueryPrintPathBrief_def Let_def)

lemma PrintPath_mode:
  assumes "ev \<in> set (fst (PathQueryPrintPath sys PATH_MAX (Some q) (Some a)))"
  shows "(is_Detail ev \<longrightarrow> PathListGetSize (Some (paths a)) = 1 \<and> PathQueryGetLevel (Some q) = 0) \<and>
         (is_Brief ev \<longrightarrow> \<not> (PathListGetSize (Some (paths a)) = 1 \<and> PathQueryGetLevel (Some q) = 0))"
proof (cases "PathQueryPrintPath_stat sys PATH_MAX (PathQueryGetPath_buf PATH_MAX q)")
  case (Pair out1 r)
  have e1: "\<And>e. e \<in> set out1 \<Longrightarrow> is_Error e"
    using stat_events [of _ sys PATH_MAX "PathQueryGetPath_buf PATH_MAX q"] Pair by simp
  show ?thesis
  proof (cases r)
    case (Inl rc)
    with Pair assms e1 show ?thesis
      by (auto simp: PathQueryPrintPath_def)
  next
    case (Inr sl)
    obtain st linkdesc where sl: "sl = (st, linkdesc)" by (cases sl)
    obtain err sizebuf where b: "BFByteGetString sys (st_size st) = (err, sizebuf)"
      by (cases "BFByteGetString sys (st_size st)")
    show ?thesis
    proof (cases "err = 0")
      case False
      with b Pair Inr sl assms e1 show ?thesis
        by (auto simp: PathQueryPrintPath_def)
    next
      case True
      with b Pair Inr sl assms e1 show ?thesis
        by (auto simp: PathQueryPrintPath_def GetPrintablePath_Some Let_def
            PathQueryPrintPathDetail_def PathQueryPrintPathBrief_def split: if_splits)
    qed
  qed
qed

lemma PrintDir_entry_brief:
  assumes "ev \<in> set (PathQueryPrintDir_entry sys PATH_MAX d a e)" and "pq_lvl d = 0"
  shows "\<not> is_Detail ev"
proof
  assume det: "is_Detail ev"
  let ?c = "PathQueryCreateChild_node PATH_MAX d (d_name e)"
  from assms(1) det have "ev \<in> set (fst (PathQueryPrintPath sys PATH_MAX (Some ?c) (Some a)))"
    by (auto simp: PathQueryPrintDir_entry_def PathQueryCreateChild_def case_prod_beta
        split: if_splits)
  with det have "PathQueryGetLevel (Some ?c) = 0" using PrintPath_mode by blast
  with assms(2) show False
    by (simp add: PathQueryGetLevel_def PathQueryCreateChild_node_def)
qed

lemma PrintDir_brief:
  assumes "ev \<in> set (fst (PathQueryPrintDir sys PATH_MAX (Some d) (Some a)))" and "pq_lvl d = 0"
  shows "\<not> is_Detail ev"
proof
  assume det: "is_Detail ev"
  with assms(1) obtain e where "ev \<in> set (PathQueryPrintDir_entry sys PATH_MAX d a e)"
    by (auto simp: PathQueryPrintDir_def Let_def split: option.splits if_splits)
  with assms(2) det show False using PrintDir_entry_brief by blast
qed

lemma GetInfo_path_detail:
  assumes "ev \<in> set (GetInfo_path sys PATH_MAX a i)" and "is_Detail ev"
  shows "\<exists>currpath. PathListGetPathAtIndex (Some (paths a)) i Dest = Inr currpath \<and>
           PathQueryIsFile sys (Some (PathQueryCreate_node PATH_MAX currpath)) \<and>
           ev \<in> set (fst (PathQueryPrintPath sys PATH_MAX
                    (Some (PathQueryCreate_node PATH_MAX currpath)) (Some a)))"
proof (cases "PathListGetPathAtIndex (Some (paths a)) i Dest")
  case (Inl rc)
  with assms show ?thesis by (auto simp: GetInfo_path_def)
next
  case (Inr currpath)
  let ?root = "PathQueryCreate_node PATH_MAX currpath"
  have lvl: "pq_lvl ?root = 0" by (simp add: PathQueryCreate_node_def)
  show ?thesis
  proof (cases "PathQueryIsFile sys (Some ?root)")
    case True
    with Inr assms show ?thesis
      by (auto simp: GetInfo_path_def PathQueryCreate_def case_prod_beta split: if_splits)
  next
    case False
    with Inr assms have "ev \<in> set (fst (PathQueryPrintDir sys PATH_MAX (Some ?root) (Some a)))"
      by (auto simp: GetInfo_path_def PathQueryCreate_def case_prod_beta split: if_splits)
    with lvl assms(2) show ?thesis using PrintDir_brief by blast
  qed
qed

lemma PrintPath_symlink_no_follow:
  assumes "lstat sys (PathQueryGetPath_buf PATH_MAX q) = Some st" and "S_ISLNK (st_mode st)"
  shows "PathQueryPrintPath (sys\<lparr>stat := follow\<rparr>) PATH_MAX (Some q) (Some a)
           = PathQueryPrintPath sys PATH_MAX (Some q) (Some a)"
proof -
  have l: "lstat (sys\<lparr>stat := follow\<rparr>) (PathQueryGetPath_buf PATH_MAX q) = Some st"
    using assms(1) by simp
  have g: "GetPrintablePath_buf (sys\<lparr>stat := follow\<rparr>) PATH_MAX q
             = GetPrintablePath_buf sys PATH_MAX q"
    by (simp add: GetPrintablePath_buf_def)
  obtain err sizebuf where b: "BFByteGetString sys (st_size st) = (err, sizebuf)"
    by (cases "BFByteGetString sys (st_size st)")
  show ?thesis
  proof (cases "err = 0")
    case False
    with b show ?thesis
      by (simp add: PathQueryPrintPath_def stat_symlink [OF l assms(2)]
          stat_symlink [OF assms])
  next
    case True
    with b show ?thesis
      by (simp add: PathQueryPrintPath_def stat_symlink [OF l assms(2)]
          stat_symlink [OF assms] GetPrintablePath_Some g)
  qed
qed

subsection \<open>Evaluation on the small file system\<close>

lemma example_root: "PathQueryGetPath_buf 4096 (PathQuery [c] None 0) = [c]"
  by (simp add: PathQueryGetPath_buf_def snprintf_def strncpy_def
      RemoveTrailingForwardSlashes_buf_def)

lemma example_create: "PathQueryCreate_node 4096 [c] = PathQuery [c] None 0"
  by (simp add: PathQueryCreate_node_def strncpy_def RemoveTrailingForwardSlashes_buf_def)

lemma example_link_is_link: "S_ISLNK (st_mode example_link)"
  by (simp add: S_ISLNK_def example_link_def S_IFMT_def S_IFLNK_def)

lemma example_file_is_no_link: "\<not> S_ISLNK (st_mode example_file)"
  by (simp add: S_ISLNK_def example_file_def S_IFMT_def S_IFLNK_def)

lemma example_print_l:
  "PathQueryPrintPath example_system 4096 (Some (PathQuery ''l'' None 0)) (Some (example_arguments fs []))
   = ([if length fs = 1
       then Detail ''l'' STAT_MOD_TYPE_SYMLINK 0x1FF 1 2 3 ''4 B'' ANSI_COLOR_CYAN '' -> t'' 1000 1000
       else Brief ''l'' STAT_MOD_TYPE_SYMLINK 0x1FF 1 ''4 B'' ANSI_COLOR_CYAN '' -> t''], 0)"
proof -
  have l: "lstat example_system (PathQueryGetPath_buf 4096 (PathQuery ''l'' None 0)) = Some example_link"
    by (simp add: example_root example_system_def)
  have b: "BFByteGetString example_system (st_size example_link) = (0, ''4 B'')"
    by (simp add: example_system_def example_link_def)
  show ?thesis
    unfolding PrintPath_symlink [OF l example_link_is_link b]
    by (simp add: example_root GetPrintablePath_buf_def PathQueryGetLevel_def strncpy_def snprintf_def
        example_system_def example_link_def example_arguments_def PathListGetSize_def
        S_IRWXU_def S_IRWXG_def S_IRWXO_def)
qed

lemma example_print_t:
  "PathQueryPrintPath example_system 4096 (Some (PathQuery ''t'' None 0)) (Some (example_arguments fs []))
   = ([if length fs = 1
       then Detail ''t'' STAT_MOD_TYPE_FILE 0x1A4 10 20 30 ''100 B'' ANSI_COLOR_GREEN [] 0 0
       else Brief ''t'' STAT_MOD_TYPE_FILE 0x1A4 10 ''100 B'' ANSI_COLOR_GREEN []], 0)"
  using example_file_is_no_link
  by (simp add: PathQueryPrintPath_def PathQueryPrintPath_stat_def example_root
      GetPrintablePath_Some GetPrintablePath_buf_def PathQueryGetLevel_def strncpy_def
      example_system_def example_file_def example_arguments_def PathListGetSize_def
      StatGetModeType_def StatGetModeTypeColor_def mode_defs
      S_IRWXU_def S_IRWXG_def S_IRWXO_def
      PathQueryPrintPathDetail_def PathQueryPrintPathBrief_def)

lemma example_paths:
  "paths (example_arguments fs ds)
     = \<lparr>arrayfile = fs, sizefile = length fs, arraydir = ds, sizedir = length ds\<rparr>"
  by (simp add: example_arguments_def)

lemma example_is_file:
  "BFFileSystemPathIsFile example_system path \<longleftrightarrow> path = ''l'' \<or> path = ''t'' \<or> path = ''u''"
  by (simp add: example_system_def)

lemma example_GetInfo_path:
  assumes "i < length fs"
  shows "fs ! i = ''l'' \<Longrightarrow> GetInfo_path example_system 4096 (example_arguments fs []) i
           = fst (PathQueryPrintPath example_system 4096 (Some (PathQuery ''l'' None 0))
                    (Some (example_arguments fs [])))"
    and "fs ! i = ''t'' \<Longrightarrow> GetInfo_path example_system 4096 (example_arguments fs []) i
           = fst (PathQueryPrintPath example_system 4096 (Some (PathQuery ''t'' None 0))
                    (Some (example_arguments fs [])))"
  using assms
  by (simp_all add: GetInfo_path_def PathListGetPathAtIndex_def PathListGetSize_def
      example_paths strncpy_def PathQueryCreate_def example_create PathQueryIsFile_def
      example_is_file example_print_l example_print_t)

lemma example_GetInfo_one:
  "GetInfo example_system 4096 (Some (example_arguments [''l''] [])) =
     ([Detail ''l'' STAT_MOD_TYPE_SYMLINK 0x1FF 1 2 3 ''4 B'' ANSI_COLOR_CYAN '' -> t'' 1000 1000], 0)"
  by (simp add: GetInfo_def PathListGetSize_def example_paths example_GetInfo_path
      example_print_l)

lemma example_GetInfo_two:
  "GetInfo example_system 4096 (Some (example_arguments [''l'', ''t''] [])) =
     ([Brief ''l'' STAT_MOD_TYPE_SYMLINK 0x1FF 1 ''4 B'' ANSI_COLOR_CYAN '' -> t'',
       Brief ''t'' STAT_MOD_TYPE_FILE 0x1A4 10 ''100 B'' ANSI_COLOR_GREEN []], 0)"
proof -
  have "[0..<2] = [0, Suc 0]" by (simp add: upt_rec)
  then show ?thesis
    by (simp add: GetInfo_def PathListGetSize_def example_paths example_GetInfo_path
        example_print_l example_print_t)
qed

lemma example_print_child:
  "PathQueryPrintPath example_system 4096
       (Some (PathQuery ''t'' (Some (PathQuery ''d'' None 0)) 1)) (Some (example_arguments [] [''d'']))
   = ([Brief ''t'' STAT_MOD_TYPE_FILE 0x1A4 10 ''100 B'' ANSI_COLOR_GREEN []], 0)"
proof -
  have p: "PathQueryGetPath_buf 4096 (PathQuery ''t'' (Some (PathQuery ''d'' None 0)) 1) = ''d/t''"
    by (simp add: PathQueryGetPath_buf_def snprintf_def strncpy_def
        RemoveTrailingForwardSlashes_buf_def)
  show ?thesis
    using example_file_is_no_link
    by (simp add: PathQueryPrintPath_def PathQueryPrintPath_stat_def p
        GetPrintablePath_Some GetPrintablePath_buf_def PathQueryGetLevel_def strncpy_def
        example_system_def example_file_def example_paths PathListGetSize_def
        StatGetModeType_def StatGetModeTypeColor_def mode_defs
        S_IRWXU_def S_IRWXG_def S_IRWXO_def
        PathQueryPrintPathDetail_def PathQueryPrintPathBrief_def)
qed

lemma example_GetInfo_dir:
  "GetInfo example_system 4096 (Some (example_arguments [] [''d''])) =
     ([Brief ''t'' STAT_MOD_TYPE_FILE 0x1A4 10 ''100 B'' ANSI_COLOR_GREEN []], 0)"
proof -
  have c: "PathQueryCreateChild_node 4096 (PathQuery ''d'' None 0) ''t''
             = PathQuery ''t'' (Some (PathQuery ''d'' None 0)) 1"
    by (simp add: PathQueryCreateChild_node_def strncpy_def RemoveTrailingForwardSlashes_buf_def)
  have s: "scandir example_system ''d''
             = Some [\<lparr>d_name = ''.'', d_type = 4\<rparr>, \<lparr>d_name = ''..'', d_type = 4\<rparr>,
                     \<lparr>d_name = ''t'', d_type = 8\<rparr>]"
    by (simp add: example_system_def)
  have r: "\<not> recursive (example_arguments [] [''d''])"
    by (simp add: example_arguments_def)
  have d: "PathQueryPrintDir example_system 4096 (Some (PathQuery ''d'' None 0))
             (Some (example_arguments [] [''d'']))
           = ([Brief ''t'' STAT_MOD_TYPE_FILE 0x1A4 10 ''100 B'' ANSI_COLOR_GREEN []], 0)"
    by (simp add: PathQueryPrintDir_def example_root s PathListGetSize_def example_paths
        PathQueryPrintDir_entry_def PathQueryCreateChild_def c r example_print_child)
  show ?thesis
    by (simp add: GetInfo_def GetInfo_path_def PathListGetSize_def example_paths
        PathListGetPathAtIndex_def strncpy_def PathQueryCreate_def example_create
        PathQueryIsFile_def example_is_file d)
qed

subsection \<open>The choice between the two presentations\<close>

text \<open>
  C1: among the lines \<^verbatim>\<open>GetInfo\<close> prints for entries, a line is in the detail
  presentation if and only if the query has exactly one root path, this root is a
  file, and the line is the rendering of the node of this root, whose level is 0;
  every other line for an entry (several roots, a root that is a directory, a child
  found by the traversal) is in the brief presentation.
\<close>

theorem detail_iff_single_file_root:
  assumes "ev \<in> set (fst (GetInfo sys PATH_MAX (Some a)))" and "is_Brief ev \<or> is_Detail ev"
  shows "(is_Detail ev \<longleftrightarrow>
           PathListGetSize (Some (paths a)) = 1 \<and>
           (\<exists>currpath root.
               PathListGetPathAtIndex (Some (paths a)) 0 Dest = Inr currpath \<and>
               PathQueryCreate PATH_MAX Dest (Some currpath) = Inr root \<and>
               PathQueryIsFile sys (Some root) \<and>
               PathQueryGetLevel (Some root) = 0 \<and>
               ev \<in> set (fst (PathQueryPrintPath sys PATH_MAX (Some root) (Some a))))) \<and>
         (is_Brief ev \<longleftrightarrow>
           \<not> (PathListGetSize (Some (paths a)) = 1 \<and>
           (\<exists>currpath root.
               PathListGetPathAtIndex (Some (paths a)) 0 Dest = Inr currpath \<and>
               PathQueryCreate PATH_MAX Dest (Some currpath) = Inr root \<and>
               PathQueryIsFile sys (Some root) \<and>
               PathQueryGetLevel (Some root) = 0 \<and>
               ev \<in> set (fst (PathQueryPrintPath sys PATH_MAX (Some root) (Some a))))))"
proof -
  let ?R = "PathListGetSize (Some (paths a)) = 1 \<and>
           (\<exists>currpath root.
               PathListGetPathAtIndex (Some (paths a)) 0 Dest = Inr currpath \<and>
               PathQueryCreate PATH_MAX Dest (Some currpath) = Inr root \<and>
               PathQueryIsFile sys (Some root) \<and>
               PathQueryGetLevel (Some root) = 0 \<and>
               ev \<in> set (fst (PathQueryPrintPath sys PATH_MAX (Some root) (Some a))))"
  have excl: "is_Brief ev \<longleftrightarrow> \<not> is_Detail ev"
    using assms(2) by (cases ev) auto
  have "is_Detail ev \<longleftrightarrow> ?R"
  proof
    assume det: "is_Detail ev"
    from assms(1) obtain i where i: "i < PathListGetSize (Some (paths a))"
      and ev: "ev \<in> set (GetInfo_path sys PATH_MAX a i)"
      by (auto simp: GetInfo_def)
    from GetInfo_path_detail [OF ev det] obtain currpath where
      c: "PathListGetPathAtIndex (Some (paths a)) i Dest = Inr currpath"
      and f: "PathQueryIsFile sys (Some (PathQueryCreate_node PATH_MAX currpath))"
      and p: "ev \<in> set (fst (PathQueryPrintPath sys PATH_MAX
                    (Some (PathQueryCreate_node PATH_MAX currpath)) (Some a)))"
      by blast
    from PrintPath_mode [OF p] det have one: "PathListGetSize (Some (paths a)) = 1" by blast
    with i have "i = 0" by simp
    with c f p one show ?R
      by (auto simp: PathQueryCreate_def PathQueryGetLevel_def PathQueryCreate_node_def)
  next
    assume r: ?R
    then obtain root where one: "PathListGetSize (Some (paths a)) = 1"
      and l: "PathQueryGetLevel (Some root) = 0"
      and p: "ev \<in> set (fst (PathQueryPrintPath sys PATH_MAX (Some root) (Some a)))"
      by blast
    from PrintPath_mode [OF p] one l have "\<not> is_Brief ev" by blast
    with excl show "is_Detail ev" by simp
  qed
  with excl show ?thesis by simp
qed

theorem detail_iff_single_file_root_witness:
  "Detail ''l'' STAT_MOD_TYPE_SYMLINK 0x1FF 1 2 3 ''4 B'' ANSI_COLOR_CYAN '' -> t'' 1000 1000
     \<in> set (fst (GetInfo example_system 4096 (Some (example_arguments [''l''] [])))) \<and>
   PathListGetSize (Some (paths (example_arguments [''l''] []))) = 1 \<and>
   PathQueryIsFile example_system (Some (PathQuery ''l'' None 0)) \<and>
   Brief ''t'' STAT_MOD_TYPE_FILE 0x1A4 10 ''100 B'' ANSI_COLOR_GREEN []
     \<in> set (fst (GetInfo example_system 4096 (Some (example_arguments [''l'', ''t''] [])))) \<and>
   PathListGetSize (Some (paths (example_arguments [''l'', ''t''] []))) = 2 \<and>
   Brief ''t'' STAT_MOD_TYPE_FILE 0x1A4 10 ''100 B'' ANSI_COLOR_GREEN []
     \<in> set (fst (GetInfo example_system 4096 (Some (example_arguments [] [''d''])))) \<and>
   PathListGetSize (Some (paths (example_arguments [] [''d'']))) = 1 \<and>
   \<not> PathQueryIsFile example_system (Some (PathQuery ''d'' None 0))"
  using
    detail_iff_single_file_root [of
      "Detail ''l'' STAT_MOD_TYPE_SYMLINK 0x1FF 1 2 3 ''4 B'' ANSI_COLOR_CYAN '' -> t'' 1000 1000"
      example_system 4096 "example_arguments [''l''] []"]
    detail_iff_single_file_root [of
      "Brief ''t'' STAT_MOD_TYPE_FILE 0x1A4 10 ''100 B'' ANSI_COLOR_GREEN []"
      example_system 4096 "example_arguments [''l'', ''t''] []"]
    detail_iff_single_file_root [of
      "Brief ''t'' STAT_MOD_TYPE_FILE 0x1A4 10 ''100 B'' ANSI_COLOR_GREEN []"
      example_system 4096 "example_arguments [] [''d'']"]
  by (simp add: example_GetInfo_one example_GetInfo_two example_GetInfo_dir
      PathListGetSize_def example_paths PathQueryIsFile_def example_is_file)

subsection \<open>Symbolic links\<close>

text \<open>
  C2, as stated, fails: \<^verbatim>\<open>l\<close> is a symbolic link whose target can be reached (the
  follow fetch gives permissions 0644, 100 bytes and the times 10, 20, 30), and the
  line printed for it still has the permissions 0777, the 4 bytes and the times 1,
  2, 3 of the link itself.
\<close>

theorem PathQueryPrintPath_symlink_not_followed:
  "lstat example_system ''l'' = Some example_link \<and>
   S_ISLNK (st_mode example_link) \<and>
   stat example_system ''l'' = Some example_file \<and>
   st_mode example_file AND (S_IRWXU OR S_IRWXG OR S_IRWXO) = 0x1A4 \<and>
   BFByteGetString example_system (st_size example_file) = (0, ''100 B'') \<and>
   st_mtime example_file = 10 \<and> st_atime example_file = 20 \<and> st_ctime example_file = 30 \<and>
   PathQueryCreate 4096 Dest (Some ''l'') = Inr (PathQuery ''l'' None 0) \<and>
   PathQueryGetPath 4096 (Some (PathQuery ''l'' None 0)) Dest = Inr ''l'' \<and>
   PathQueryPrintPath example_system 4096 (Some (PathQuery ''l'' None 0))
       (Some (example_arguments [''l''] []))
     = ([Detail ''l'' STAT_MOD_TYPE_SYMLINK 0x1FF 1 2 3 ''4 B'' ANSI_COLOR_CYAN '' -> t''
           1000 1000], 0)"
  by (simp add: example_link_is_link example_print_l PathQueryCreate_def example_create
      PathQueryGetPath_def example_root)
    (simp add: example_system_def example_file_def S_IRWXU_def S_IRWXG_def S_IRWXO_def)

text \<open>
  C2, amended: for every path whose link-aware metadata indicates a symbolic link,
  no follow-symlink fetch takes part in the record: whatever such a fetch would
  return, the permission bits, the size and the three timestamps (and the owner and
  the group) are those of the link-aware result, and the type tag is symlink.
\<close>

theorem PathQueryPrintPath_symlink_own_metadata:
  assumes "lstat sys (PathQueryGetPath_buf PATH_MAX q) = Some st"
    and "S_ISLNK (st_mode st)"
  shows "PathQueryPrintPath (sys\<lparr>stat := follow\<rparr>) PATH_MAX (Some q) (Some a)
           = PathQueryPrintPath sys PATH_MAX (Some q) (Some a) \<and>
    (\<forall>sizebuf. BFByteGetString sys (st_size st) = (0, sizebuf) \<longrightarrow>
       (\<exists>item linkdesc.
          PathQueryPrintPath sys PATH_MAX (Some q) (Some a) =
            ([if PathListGetSize (Some (paths a)) = 1 \<and> PathQueryGetLevel (Some q) = 0
              then Detail item STAT_MOD_TYPE_SYMLINK
                     (st_mode st AND (S_IRWXU OR S_IRWXG OR S_IRWXO))
                     (st_mtime st) (st_atime st) (st_ctime st) sizebuf ANSI_COLOR_CYAN
                     linkdesc (st_uid st) (st_gid st)
              else Brief item STAT_MOD_TYPE_SYMLINK
                     (st_mode st AND (S_IRWXU OR S_IRWXG OR S_IRWXO))
                     (st_mtime st) sizebuf ANSI_COLOR_CYAN linkdesc], 0)))"
  using PrintPath_symlink_no_follow [OF assms] PrintPath_symlink [OF assms]
  by blast

theorem PathQueryPrintPath_symlink_own_metadata_witness:
  "lstat example_system (PathQueryGetPath_buf 4096 (PathQuery ''l'' None 0)) = Some example_link \<and>
   S_ISLNK (st_mode example_link) \<and>
   BFByteGetString example_system (st_size example_link) = (0, ''4 B'') \<and>
   PathQueryPrintPath (example_system\<lparr>stat := \<lambda>path. None\<rparr>) 4096
       (Some (PathQuery ''l'' None 0)) (Some (example_arguments [''l'', ''t''] []))
     = ([Brief ''l'' STAT_MOD_TYPE_SYMLINK 0x1FF 1 ''4 B'' ANSI_COLOR_CYAN '' -> t''], 0)"
proof -
  have l: "lstat example_system (PathQueryGetPath_buf 4096 (PathQuery ''l'' None 0))
             = Some example_link"
    by (simp add: example_root example_system_def)
  have b: "BFByteGetString example_system (st_size example_link) = (0, ''4 B'')"
    by (simp add: example_system_def example_link_def)
  from PathQueryPrintPath_symlink_own_metadata [OF l example_link_is_link,
      of "\<lambda>path. None" "example_arguments [''l'', ''t''] []"]
  show ?thesis using l b example_link_is_link by (simp add: example_print_l)
qed

text \<open>
  C3: for a symbolic link whose text cannot be read, the metadata of the entry is
  obtained without error, it is the link-aware metadata of the link, and the text
  reported for the target is \<^verbatim>\<open>?\<close> (printed after \<^verbatim>\<open> -> \<close>); the entry is then
  rendered with the code 0 whenever its size can be formatted.
\<close>

theorem PathQueryPrintPath_unreadable_link:
  assumes "lstat sys (PathQueryGetPath_buf PATH_MAX q) = Some st"
    and "S_ISLNK (st_mode st)"
    and "readlink sys (PathQueryGetPath_buf PATH_MAX q) = None"
    and "5 < PATH_MAX"
  shows "PathQueryPrintPath_stat sys PATH_MAX (PathQueryGetPath_buf PATH_MAX q)
           = ([], Inr (st, '' -> '' @ ''?'')) \<and>
    (\<forall>sizebuf. BFByteGetString sys (st_size st) = (0, sizebuf) \<longrightarrow>
       (\<exists>item.
          PathQueryPrintPath sys PATH_MAX (Some q) (Some a) =
            ([if PathListGetSize (Some (paths a)) = 1 \<and> PathQueryGetLevel (Some q) = 0
              then Detail item STAT_MOD_TYPE_SYMLINK
                     (st_mode st AND (S_IRWXU OR S_IRWXG OR S_IRWXO))
                     (st_mtime st) (st_atime st) (st_ctime st) sizebuf ANSI_COLOR_CYAN
                     ('' -> '' @ ''?'') (st_uid st) (st_gid st)
              else Brief item STAT_MOD_TYPE_SYMLINK
                     (st_mode st AND (S_IRWXU OR S_IRWXG OR S_IRWXO))
                     (st_mtime st) sizebuf ANSI_COLOR_CYAN ('' -> '' @ ''?'')], 0)))"
proof -
  have d: "snprintf PATH_MAX ('' -> '' @ ''?'') = '' -> '' @ ''?''"
    using assms(4) by (simp add: snprintf_def)
  show ?thesis
    using stat_symlink [OF assms(1,2), of PATH_MAX] PrintPath_symlink [OF assms(1,2)]
      assms(3) d
    by simp
qed

theorem PathQueryPrintPath_unreadable_link_witness:
  "lstat example_system (PathQueryGetPath_buf 4096 (PathQuery ''u'' None 0)) = Some example_link \<and>
   S_ISLNK (st_mode example_link) \<and>
   readlink example_system (PathQueryGetPath_buf 4096 (PathQuery ''u'' None 0)) = None \<and>
   (5::nat) < 4096 \<and>
   BFByteGetString example_system (st_size example_link) = (0, ''4 B'') \<and>
   PathQueryPrintPath_stat example_system 4096 ''u'' = ([], Inr (example_link, '' -> ?'')) \<and>
   fst (PathQueryPrintPath example_system 4096 (Some (PathQuery ''u'' None 0))
          (Some (example_arguments [''u''] [])))
     = [Detail ''u'' STAT_MOD_TYPE_SYMLINK 0x1FF 1 2 3 ''4 B'' ANSI_COLOR_CYAN '' -> ?''
          1000 1000] \<and>
   snd (PathQueryPrintPath example_system 4096 (Some (PathQuery ''u'' None 0))
          (Some (example_arguments [''u''] []))) = 0"
proof -
  have l: "lstat example_system (PathQueryGetPath_buf 4096 (PathQuery ''u'' None 0))
             = Some example_link"
    by (simp add: example_root example_system_def)
  have r: "readlink example_system (PathQueryGetPath_buf 4096 (PathQuery ''u'' None 0)) = None"
    by (simp add: example_root example_system_def)
  have b: "BFByteGetString example_system (st_size example_link) = (0, ''4 B'')"
    by (simp add: example_system_def example_link_def)
  have p: "GetPrintablePath example_system 4096 (Some (PathQuery ''u'' None 0)) Dest
             = ([], Inr ''u'')"
    by (simp add: GetPrintablePath_Some GetPrintablePath_buf_def PathQueryGetLevel_def
        example_root strncpy_def example_system_def)
  have m: "st_mode example_link AND (S_IRWXU OR S_IRWXG OR S_IRWXO) = 0x1FF"
    "st_mtime example_link = 1" "st_atime example_link = 2" "st_ctime example_link = 3"
    "st_uid example_link = 1000" "st_gid example_link = 1000"
    by (simp_all add: example_link_def S_IRWXU_def S_IRWXG_def S_IRWXO_def)
  have s: "PathListGetSize (Some (paths (example_arguments [''u''] []))) = 1"
    by (simp add: PathListGetSize_def example_paths)
  from PathQueryPrintPath_unreadable_link [OF l example_link_is_link r,
      of "example_arguments [''u''] []"]
  show ?thesis using l r b example_link_is_link
    by (auto simp: example_root m s PathQueryGetLevel_def PathQueryPrintPath_def p Let_def
        PathQueryPrintPathDetail_def)
qed


end
